theory Spec2Isabelle
  imports Complex_Main "HOL-Library.List_Lexorder"
begin

section \<open>Personnel attendance bot: store, admin panel and conversation handlers\<close>

text \<open>
  A shallow embedding of the attendance store (\<^verbatim>\<open>database.py\<close>), the admin panel
  (\<^verbatim>\<open>admin.py\<close>), the name validator (\<^verbatim>\<open>utils.py\<close>) and the conversation handlers
  (\<^verbatim>\<open>handlers.py\<close>).

  Conventions.
  \<^item> A Python \<^verbatim>\<open>str\<close> that may carry Cyrillic text (names, locations, typed input, status
    values, event tags) is a list of Unicode code points, \<open>pystr\<close>; its length is Python's
    \<^verbatim>\<open>len\<close>. Protocol tokens (callback data, permission keys) are ASCII and are HOL strings.
  \<^item> The SQLite tables are lists of rows in insertion order. Timestamps are left out. Each SQL
    statement is given SQLite's meaning: \<^verbatim>\<open>INSERT OR REPLACE\<close> deletes the rows that conflict on a
    \<^verbatim>\<open>UNIQUE\<close> column before inserting, \<^verbatim>\<open>INSERT OR IGNORE\<close> skips on conflict, omitted columns
    take their declared defaults, and an \<^verbatim>\<open>UPDATE\<close> naming an unknown column raises.
  \<^item> The store is taken to be open: the only exceptions modelled are those that depend on the
    arguments. Where a handler catches an exception, the handler's \<^verbatim>\<open>except\<close> branch is the
    model's branch.
  \<^item> The handlers read the module globals \<^verbatim>\<open>admin_panel\<close>, \<^verbatim>\<open>notification_system\<close> and \<^verbatim>\<open>dp\<close>;
    here the store and the configured admin list are explicit arguments. The conversation
    state of the calling user is the record \<open>fsm\<close>: \<^verbatim>\<open>X.set()\<close> and \<^verbatim>\<open>set_state(X)\<close> store the
    state tag, \<^verbatim>\<open>update_data\<close> stores a field, \<^verbatim>\<open>finish()\<close> clears tag and fields.
  \<^item> Telegram output (message texts, keyboards) is represented by tags; sending never fails.
\<close>

subsection \<open>Python strings\<close>

type_synonym pystr = "nat list"

definition ascii :: "string \<Rightarrow> pystr" where
  "ascii s = map of_char s"

text \<open>The two status values as code points: \<^verbatim>\<open>'\u0432_\u0447\u0430\u0441\u0442\u0438'\<close> (in unit) and
  \<^verbatim>\<open>'\u0432\u043d\u0435_\u0447\u0430\u0441\u0442\u0438'\<close> (away).\<close>

definition IN_UNIT :: pystr where
  "IN_UNIT = [1074, 95, 1095, 1072, 1089, 1090, 1080]"

definition AWAY :: pystr where
  "AWAY = [1074, 1085, 1077, 95, 1095, 1072, 1089, 1090, 1080]"

text \<open>\<^verbatim>\<open>str.isspace\<close> on one code point; the regular-expression class \<^verbatim>\<open>\s\<close> is the same set.\<close>

definition py_isspace :: "nat \<Rightarrow> bool" where
  "py_isspace c =
     ((9 \<le> c \<and> c \<le> 13) \<or> (28 \<le> c \<and> c \<le> 32) \<or> c = 133 \<or> c = 160 \<or> c = 5760
      \<or> (8192 \<le> c \<and> c \<le> 8202) \<or> c = 8232 \<or> c = 8233 \<or> c = 8239 \<or> c = 8287
      \<or> c = 12288)"

definition py_strip :: "pystr \<Rightarrow> pystr" where
  "py_strip s = rev (dropWhile py_isspace (rev (dropWhile py_isspace s)))"

text \<open>
  \<^verbatim>\<open>str.lower\<close>, on ASCII and the Cyrillic block; other code points are returned as they are.
  No code point outside these ranges lower-cases to a Cyrillic letter, so comparing the result
  with a lower-case Cyrillic word decides what Python decides.
\<close>

definition lower_cp :: "nat \<Rightarrow> nat" where
  "lower_cp c =
     (if 65 \<le> c \<and> c \<le> 90 then c + 32
      else if 1040 \<le> c \<and> c \<le> 1071 then c + 32
      else if 1024 \<le> c \<and> c \<le> 1039 then c + 80
      else c)"

definition py_lower :: "pystr \<Rightarrow> pystr" where
  "py_lower s = map lower_cp s"

text \<open>\<^verbatim>\<open>s.split(sep)\<close> and \<^verbatim>\<open>s.split(sep, 1)\<close> for a one-character separator.\<close>

fun split_on :: "char \<Rightarrow> string \<Rightarrow> string list" where
  "split_on sep [] = [[]]"
| "split_on sep (c # cs) =
     (if c = sep then [] # split_on sep cs
      else (case split_on sep cs of p # ps \<Rightarrow> (c # p) # ps | [] \<Rightarrow> [[c]]))"

definition split_once :: "char \<Rightarrow> string \<Rightarrow> string \<times> string" where
  "split_once sep s = (takeWhile (\<lambda>c. c \<noteq> sep) s, tl (dropWhile (\<lambda>c. c \<noteq> sep) s))"

definition startswith :: "string \<Rightarrow> string \<Rightarrow> bool" where
  "startswith s p = (take (length p) s = p)"

text \<open>
  \<^verbatim>\<open>int(s)\<close> on a token: surrounding whitespace is dropped, one sign is allowed, the rest must
  be a non-empty run of decimal digits; anything else raises \<^verbatim>\<open>ValueError\<close> (\<open>None\<close>). The tokens
  parsed here are pieces of a string split at underscores, so digit-group underscores do not
  occur.
\<close>

definition digit_val :: "char \<Rightarrow> nat option" where
  "digit_val c = (let n = (of_char c :: nat) in if 48 \<le> n \<and> n \<le> 57 then Some (n - 48) else None)"

fun digits_val :: "nat \<Rightarrow> string \<Rightarrow> nat option" where
  "digits_val acc [] = Some acc"
| "digits_val acc (c # cs) =
     (case digit_val c of None \<Rightarrow> None | Some d \<Rightarrow> digits_val (10 * acc + d) cs)"

definition strip_ascii :: "string \<Rightarrow> string" where
  "strip_ascii s =
     rev (dropWhile (\<lambda>c. py_isspace (of_char c)) (rev (dropWhile (\<lambda>c. py_isspace (of_char c)) s)))"

definition unsigned_int :: "string \<Rightarrow> nat option" where
  "unsigned_int ds = (if ds = [] then None else digits_val 0 ds)"

definition py_int :: "string \<Rightarrow> int option" where
  "py_int s =
     (case strip_ascii s of
        [] \<Rightarrow> None
      | c # cs \<Rightarrow>
          if c = CHR ''-'' then map_option (\<lambda>n. - int n) (unsigned_int cs)
          else if c = CHR ''+'' then map_option int (unsigned_int cs)
          else map_option int (unsigned_int (c # cs)))"

text \<open>\<^verbatim>\<open>xs[start:end]\<close>: negative bounds count from the end, all bounds are clamped.\<close>

definition slice_bound :: "nat \<Rightarrow> int \<Rightarrow> nat" where
  "slice_bound n i = (if i < 0 then nat (max 0 (int n + i)) else min n (nat i))"

definition py_slice :: "'a list \<Rightarrow> int \<Rightarrow> int \<Rightarrow> 'a list" where
  "py_slice xs start stop =
     (let lo = slice_bound (length xs) start; hi = slice_bound (length xs) stop
      in take (hi - lo) (drop lo xs))"

subsection \<open>The store (\<^verbatim>\<open>database.py\<close>)\<close>

record user =
  u_id :: int
  u_telegram_id :: int
  u_name :: pystr
  u_location :: "pystr option"
  u_status :: pystr
  u_is_admin :: bool
  u_username :: "pystr option"

text \<open>
  The \<^verbatim>\<open>details\<close> column is free text built by format strings; each constructor stands for one
  format string applied to its arguments.
\<close>

datatype details =
    UserAddedText pystr
  | LocationText pystr
  | AttendanceText "pystr option"
  | PermissionsText "(string \<times> bool) list"
  | JournalClearedText pystr
  | AllDataClearedText
  | SettingsResetText
  | AllMarkedArrivedText pystr

record event =
  e_user_id :: "int option"
  e_action :: pystr
  e_details :: "details option"

record notification_setting =
  n_user_id :: int
  n_enabled :: bool
  n_daily_summary :: bool
  n_reminders :: bool
  n_silent_mode :: bool

record attendance_row =
  a_user_id :: int
  a_date :: nat
  a_location :: "pystr option"

record permissions =
  p_user_id :: int
  can_view_personnel :: bool
  can_manage_personnel :: bool
  can_export_data :: bool
  can_view_journal :: bool
  can_clear_journal :: bool
  can_manage_notifications :: bool
  can_view_stats :: bool
  can_force_operations :: bool

record database =
  users :: "user list"
  attendance :: "attendance_row list"
  events :: "event list"
  notification_settings :: "notification_setting list"
  commander_permissions :: "permissions list"

definition log_event :: "database \<Rightarrow> int option \<Rightarrow> pystr \<Rightarrow> details option \<Rightarrow> database" where
  "log_event db user_id action dets =
     db\<lparr>events := events db @ [\<lparr>e_user_id = user_id, e_action = action, e_details = dets\<rparr>]\<rparr>"

text \<open>
  A new row of a table with an \<^verbatim>\<open>INTEGER PRIMARY KEY\<close> gets one more than the largest key in
  the table, or 1 in an empty table.
\<close>

definition next_rowid :: "int list \<Rightarrow> int" where
  "next_rowid ids = (if ids = [] then 1 else Max (set ids) + 1)"

definition get_user :: "database \<Rightarrow> int \<Rightarrow> user option" where
  "get_user db telegram_id = find (\<lambda>u. u_telegram_id u = telegram_id) (users db)"

definition default_notification_setting :: "int \<Rightarrow> notification_setting" where
  "default_notification_setting user_id =
     \<lparr>n_user_id = user_id, n_enabled = True, n_daily_summary = True, n_reminders = True,
      n_silent_mode = False\<rparr>"

text \<open>
  \<^verbatim>\<open>add_user\<close>: \<^verbatim>\<open>INSERT OR REPLACE INTO users (telegram_id, name, location, username)\<close>, then
  \<^verbatim>\<open>INSERT OR IGNORE INTO notification_settings (user_id)\<close>, then the \<^verbatim>\<open>user_added\<close> event.
  The columns \<^verbatim>\<open>status\<close> and \<^verbatim>\<open>is_admin\<close> are not in the column list and take their defaults.
\<close>

definition add_user ::
  "database \<Rightarrow> int \<Rightarrow> pystr \<Rightarrow> pystr option \<Rightarrow> pystr option \<Rightarrow> database \<times> bool" where
  "add_user db telegram_id name location username =
     (let user_id = next_rowid (map u_id (users db));
          row = \<lparr>u_id = user_id, u_telegram_id = telegram_id, u_name = name,
                 u_location = location, u_status = IN_UNIT, u_is_admin = False,
                 u_username = username\<rparr>;
          db1 = db\<lparr>users := filter (\<lambda>u. u_telegram_id u \<noteq> telegram_id) (users db) @ [row]\<rparr>;
          db2 = (if user_id \<in> set (map n_user_id (notification_settings db1)) then db1
                 else db1\<lparr>notification_settings :=
                        notification_settings db1 @ [default_notification_setting user_id]\<rparr>)
      in (log_event db2 (Some user_id) (ascii ''user_added'') (Some (UserAddedText name)), True))"

text \<open>\<^verbatim>\<open>get_all_users\<close>: \<^verbatim>\<open>SELECT * FROM users ORDER BY name\<close>.\<close>

definition get_all_users :: "database \<Rightarrow> user list" where
  "get_all_users db = sort_key u_name (users db)"

subsection \<open>Status of a soldier\<close>

text \<open>
  \<^verbatim>\<open>set_soldier_status\<close>: an unknown \<^verbatim>\<open>telegram_id\<close> returns false; otherwise status and
  location are written as given and one event tagged with the status is logged. Its details
  are a text with the location \<^verbatim>\<open>if location else None\<close>, so an empty location logs none.
\<close>

definition set_soldier_status ::
  "database \<Rightarrow> int \<Rightarrow> pystr \<Rightarrow> pystr option \<Rightarrow> database \<times> bool" where
  "set_soldier_status db telegram_id status location =
     (case get_user db telegram_id of
        None \<Rightarrow> (db, False)
      | Some user \<Rightarrow>
          (let db1 = db\<lparr>users :=
                 map (\<lambda>u. if u_telegram_id u = telegram_id
                           then u\<lparr>u_status := status, u_location := location\<rparr> else u)
                     (users db)\<rparr>;
               dets = (case location of
                         None \<Rightarrow> None
                       | Some l \<Rightarrow> if l = [] then None else Some (LocationText l))
           in (log_event db1 (Some (u_id user)) status dets, True)))"

record soldier_status =
  s_name :: pystr
  s_status :: pystr
  s_location :: "pystr option"
  s_telegram_id :: int

definition get_soldier_status :: "database \<Rightarrow> int \<Rightarrow> soldier_status option" where
  "get_soldier_status db telegram_id =
     (case get_user db telegram_id of
        None \<Rightarrow> None
      | Some user \<Rightarrow>
          Some \<lparr>s_name = u_name user, s_status = u_status user, s_location = u_location user,
                s_telegram_id = u_telegram_id user\<rparr>)"

definition mark_soldier_arrival :: "database \<Rightarrow> int \<Rightarrow> database \<times> bool" where
  "mark_soldier_arrival db telegram_id = set_soldier_status db telegram_id IN_UNIT None"

definition mark_soldier_departure :: "database \<Rightarrow> int \<Rightarrow> pystr \<Rightarrow> database \<times> bool" where
  "mark_soldier_departure db telegram_id location =
     set_soldier_status db telegram_id AWAY (Some location)"

text \<open>
  \<^verbatim>\<open>mark_attendance\<close>: \<^verbatim>\<open>INSERT OR REPLACE INTO attendance (user_id, date, location)\<close> for
  today's date, under \<^verbatim>\<open>UNIQUE(user_id, date)\<close>, then the \<^verbatim>\<open>attendance_marked\<close> event.
\<close>

definition mark_attendance ::
  "nat \<Rightarrow> database \<Rightarrow> int \<Rightarrow> pystr option \<Rightarrow> database \<times> bool" where
  "mark_attendance today db telegram_id location =
     (case get_user db telegram_id of
        None \<Rightarrow> (db, False)
      | Some user \<Rightarrow>
          (let row = \<lparr>a_user_id = u_id user, a_date = today, a_location = location\<rparr>;
               db1 = db\<lparr>attendance :=
                 filter (\<lambda>a. \<not> (a_user_id a = u_id user \<and> a_date a = today)) (attendance db)
                 @ [row]\<rparr>
           in (log_event db1 (Some (u_id user)) (ascii ''attendance_marked'')
                 (Some (AttendanceText location)), True)))"

subsection \<open>Commander permissions\<close>

definition default_permissions :: "int \<Rightarrow> permissions" where
  "default_permissions user_id =
     \<lparr>p_user_id = user_id, can_view_personnel = True, can_manage_personnel = False,
      can_export_data = False, can_view_journal = True, can_clear_journal = False,
      can_manage_notifications = False, can_view_stats = True, can_force_operations = False\<rparr>"


definition get_flag :: "string \<Rightarrow> permissions \<Rightarrow> bool option" where
  "get_flag k p =
     (if k = ''can_view_personnel'' then Some (can_view_personnel p)
      else if k = ''can_manage_personnel'' then Some (can_manage_personnel p)
      else if k = ''can_export_data'' then Some (can_export_data p)
      else if k = ''can_view_journal'' then Some (can_view_journal p)
      else if k = ''can_clear_journal'' then Some (can_clear_journal p)
      else if k = ''can_manage_notifications'' then Some (can_manage_notifications p)
      else if k = ''can_view_stats'' then Some (can_view_stats p)
      else if k = ''can_force_operations'' then Some (can_force_operations p)
      else None)"



text \<open>\<^verbatim>\<open>create_default_commander_permissions\<close>: \<^verbatim>\<open>INSERT OR IGNORE\<close> of an all-default row.\<close>

definition create_default_commander_permissions :: "database \<Rightarrow> int \<Rightarrow> database \<times> bool" where
  "create_default_commander_permissions db user_id =
     ((if user_id \<in> set (map p_user_id (commander_permissions db)) then db
       else db\<lparr>commander_permissions :=
              commander_permissions db @ [default_permissions user_id]\<rparr>), True)"

text \<open>
  \<^verbatim>\<open>get_commander_permissions\<close>: the row of the user, created with defaults when it is absent
  (the source creates it and calls itself again, which then finds the row).
\<close>

definition get_commander_permissions ::
  "database \<Rightarrow> int \<Rightarrow> database \<times> permissions option" where
  "get_commander_permissions db telegram_id =
     (case get_user db telegram_id of
        None \<Rightarrow> (db, None)
      | Some user \<Rightarrow>
          (case find (\<lambda>p. p_user_id p = u_id user) (commander_permissions db) of
             Some row \<Rightarrow> (db, Some row)
           | None \<Rightarrow>
               (let db1 = fst (create_default_commander_permissions db (u_id user))
                in (db1, find (\<lambda>p. p_user_id p = u_id user) (commander_permissions db1)))))"



definition check_commander_permission :: "database \<Rightarrow> int \<Rightarrow> string \<Rightarrow> database \<times> bool" where
  "check_commander_permission db telegram_id permission =
     (case get_commander_permissions db telegram_id of
        (db1, None) \<Rightarrow> (db1, False)
      | (db1, Some p) \<Rightarrow> (db1, (case get_flag permission p of Some v \<Rightarrow> v | None \<Rightarrow> False)))"

subsection \<open>The admin panel (\<^verbatim>\<open>admin.py\<close>)\<close>

text \<open>Clearing the journal, clearing all data and resetting the settings only log.\<close>

definition clear_events :: "database \<Rightarrow> pystr \<Rightarrow> database \<times> int" where
  "clear_events db period =
     (log_event db None (ascii ''journal_cleared'') (Some (JournalClearedText period)), 1)"

definition clear_all_data :: "database \<Rightarrow> database \<times> bool" where
  "clear_all_data db =
     (log_event db None (ascii ''clear_all_data'') (Some AllDataClearedText), True)"

definition reset_settings :: "database \<Rightarrow> database \<times> bool" where
  "reset_settings db =
     (log_event db None (ascii ''reset_settings'') (Some SettingsResetText), True)"

text \<open>
  What a handler reads besides the store: the configured list \<^verbatim>\<open>config.ADMIN_IDS\<close> and the
  current date.
\<close>

record env =
  ADMIN_IDS :: "int list"
  today :: nat

definition is_admin :: "env \<Rightarrow> int \<Rightarrow> bool" where
  "is_admin cfg user_id = (user_id \<in> set (ADMIN_IDS cfg))"

text \<open>\<^verbatim>\<open>AdminPanel.add_user\<close>: the store's \<^verbatim>\<open>add_user\<close> without a username, then a notification.\<close>

definition admin_add_user ::
  "database \<Rightarrow> int \<Rightarrow> pystr \<Rightarrow> pystr option \<Rightarrow> database \<times> bool" where
  "admin_add_user db telegram_id name location = add_user db telegram_id name location None"

text \<open>
  \<^verbatim>\<open>mark_all_arrived\<close>: \<^verbatim>\<open>mark_attendance\<close> for every user, counting the successes, then the
  \<^verbatim>\<open>mark_all_arrived\<close> event.
\<close>

definition mark_all_arrived :: "env \<Rightarrow> database \<Rightarrow> pystr \<Rightarrow> database \<times> nat" where
  "mark_all_arrived cfg db location =
     (let (db1, count) =
            fold (\<lambda>user (d, n).
                    (case mark_attendance (today cfg) d (u_telegram_id user) (Some location) of
                       (d', ok) \<Rightarrow> (d', if ok then n + 1 else n)))
                 (get_all_users db) (db, 0)
      in (log_event db1 None (ascii ''mark_all_arrived'') (Some (AllMarkedArrivedText location)),
          count))"

text \<open>The location passed by both callers of \<^verbatim>\<open>mark_all_arrived\<close> ("main location" in Russian).\<close>

definition main_location :: pystr where
  "main_location =
     [1086, 1089, 1085, 1086, 1074, 1085, 1072, 1103, 32, 1083, 1086, 1082, 1072, 1094, 1080, 1103]"

text \<open>
  \<^verbatim>\<open>get_users_list\<close>: the rows whose \<^verbatim>\<open>is_admin\<close> column is false, the requested slice of them,
  the page number as it was passed, and the number of pages. A zero page size raises in the
  division and the \<^verbatim>\<open>except\<close> branch returns \<^verbatim>\<open>([], 1, 1)\<close>.
\<close>

definition get_users_list :: "database \<Rightarrow> int \<Rightarrow> int \<Rightarrow> user list \<times> int \<times> int" where
  "get_users_list db page per_page =
     (let soldiers = filter (\<lambda>user. \<not> u_is_admin user) (get_all_users db);
          total_users = int (length soldiers)
      in if total_users > 0 \<and> per_page = 0 then ([], 1, 1)
         else
           (let total_pages =
                  (if total_users > 0 then (total_users + per_page - 1) div per_page else 1);
                start_idx = (page - 1) * per_page;
                end_idx = start_idx + per_page
            in (py_slice soldiers start_idx end_idx, page, total_pages)))"

subsection \<open>Replies\<close>

text \<open>The three operations of the danger zone, as named by \<^verbatim>\<open>action_names\<close>.\<close>

datatype danger_op = ClearAllData | ResetSettings | MarkAllArrived

datatype keyboard =
    BackKeyboard
  | CancelKeyboard
  | AdminKeyboard
  | SoldierKeyboard
  | CommanderKeyboard
  | InitialStatusKeyboard
  | PersonnelKeyboard
  | UsersPaginationKeyboard int int
  | DangerConfirmationKeyboard string
  | TextConfirmationKeyboard
  | JournalFiltersKeyboard

datatype message =
    NoReply
  | AccessDenied
  | UnknownAction
  | ErrorOccurred
  | UsersListEmpty
  | UsersListText "user list" int int
  | PersonnelMenu
  | AllMarkedArrivedMsg nat
  | AllDataClearedMsg bool
  | SettingsResetMsg bool
  | OperationCancelled
  | FilterPrompt string
  | FilterResults string pystr
  | DangerPrompt danger_op
  | DangerWarning "danger_op option"
  | DangerCancelled pystr
  | RegistrationAlmostDone pystr int
  | RegistrationError
  | LocationTooShort
  | LocationCyrillicOnly
  | UserNameMissing
  | RegistrationComplete pystr pystr
  | StatusSetError
  | NotRegistered
  | DepartureRegistered pystr pystr
  | DepartureError
  | AlreadyInUnit
  | ArrivalRegistered pystr
  | ArrivalError

type_synonym reply = "message \<times> keyboard option"

definition commander_or_soldier_keyboard :: "env \<Rightarrow> int \<Rightarrow> keyboard" where
  "commander_or_soldier_keyboard cfg user_id =
     (if is_admin cfg user_id then CommanderKeyboard else SoldierKeyboard)"

definition format_users_list :: "user list \<Rightarrow> int \<Rightarrow> int \<Rightarrow> message" where
  "format_users_list us page total_pages =
     (if us = [] then UsersListEmpty else UsersListText us page total_pages)"

subsection \<open>The admin panel's dispatcher\<close>

text \<open>
  \<^verbatim>\<open>AdminPanel.handle_callback\<close>. The command is split at its first colon; the admin check
  comes before any section. The personnel section and the \<^verbatim>\<open>confirm\<close> section are embedded.
  The menus, reports, monitoring and maintenance sections, which only an admin reaches, are not:
  for them the result is \<open>Unmodelled\<close> and nothing is stated about it.
\<close>

datatype 'a scope = Modelled 'a | Unmodelled

definition users_page :: "database \<Rightarrow> int \<Rightarrow> database \<times> message \<times> keyboard" where
  "users_page db page_num =
     (case get_users_list db page_num 8 of
        (us, page, total_pages) \<Rightarrow>
          (db, format_users_list us page total_pages, UsersPaginationKeyboard page total_pages))"

definition handle_callback ::
  "env \<Rightarrow> database \<Rightarrow> string \<Rightarrow> int \<Rightarrow> (database \<times> message \<times> keyboard) scope" where
  "handle_callback cfg db callback_data user_id =
     (let (action, subaction) =
            (if CHR '':'' \<in> set callback_data then split_once CHR '':'' callback_data
             else (callback_data, ''''))
      in if \<not> is_admin cfg user_id then Modelled (db, AccessDenied, BackKeyboard)
         else if action = ''dashboard'' then Unmodelled
         else if action = ''personnel'' then
           (if subaction = ''list_users'' then Modelled (users_page db 1)
            else if startswith subaction ''list_users_'' then
              (case py_int (last (split_on CHR ''_'' subaction)) of
                 Some page_num \<Rightarrow> Modelled (users_page db page_num)
               | None \<Rightarrow> Modelled (users_page db 1))
            else Modelled (db, PersonnelMenu, PersonnelKeyboard))
         else if action \<in> set [''journal'', ''journal_filter'', ''settings'', ''notifications'',
                   ''admins'', ''permissions'', ''danger_zone'', ''monitoring'', ''maintenance'',
                   ''maintenance_confirm'']
         then Unmodelled
         else if action = ''confirm'' then
           (if subaction = ''mark_all_arrived'' then
              (case mark_all_arrived cfg db main_location of
                 (db', count) \<Rightarrow> Modelled (db', AllMarkedArrivedMsg count, BackKeyboard))
            else Modelled (db, UnknownAction, BackKeyboard))
         else Modelled (db, UnknownAction, BackKeyboard))"

subsection \<open>Conversation state\<close>

datatype user_state =
    waiting_for_name
  | waiting_for_location
  | waiting_for_custom_location
  | waiting_for_initial_status
  | waiting_for_admin_action
  | waiting_for_personnel_action
  | waiting_for_settings_action
  | waiting_for_confirmation
  | waiting_for_danger_confirmation
  | waiting_for_filter_input

text \<open>The state tag (\<open>None\<close> is idle) and the data fields the handlers store.\<close>

record fsm =
  state :: "user_state option"
  user_name :: "pystr option"
  is_registration :: "bool option"
  danger_action :: "danger_op option"
  text_confirmed :: "bool option"
  filter_type :: "string option"

definition idle :: fsm where
  "idle = \<lparr>state = None, user_name = None, is_registration = None, danger_action = None,
           text_confirmed = None, filter_type = None\<rparr>"

definition finish :: "fsm \<Rightarrow> fsm" where
  "finish st = idle"

subsection \<open>Name validation (\<^verbatim>\<open>utils.py\<close>)\<close>






subsection \<open>Handlers of typed text (\<^verbatim>\<open>handlers.py\<close>)\<close>

text \<open>
  \<^verbatim>\<open>handle_name_input\<close>: the typed text goes to \<^verbatim>\<open>add_user\<close> as it is; on success the name is
  stored in the conversation data and the state becomes \<^verbatim>\<open>waiting_for_initial_status\<close>.
\<close>

definition handle_name_input ::
  "database \<Rightarrow> fsm \<Rightarrow> int \<Rightarrow> pystr option \<Rightarrow> pystr \<Rightarrow> database \<times> fsm \<times> reply" where
  "handle_name_input db st user_id username name =
     (case add_user db user_id name None username of
        (db', success) \<Rightarrow>
          if success
          then (db', st\<lparr>user_name := Some name, state := Some waiting_for_initial_status\<rparr>,
                (RegistrationAlmostDone name user_id, Some InitialStatusKeyboard))
          else (db', st, (RegistrationError, Some CancelKeyboard)))"

text \<open>\<^verbatim>\<open>re.match(r'^[\u0410-\u042f\u0430-\u044f\u0451\u0401\s\-]+$', location)\<close>: a non-empty
  run of the class (a final newline, which \<^verbatim>\<open>$\<close> would allow, is in the class already).\<close>

definition location_char :: "nat \<Rightarrow> bool" where
  "location_char c =
     ((1040 \<le> c \<and> c \<le> 1071) \<or> (1072 \<le> c \<and> c \<le> 1103) \<or> c = 1105 \<or> c = 1025
      \<or> py_isspace c \<or> c = 45)"

definition location_pattern :: "pystr \<Rightarrow> bool" where
  "location_pattern s = (s \<noteq> [] \<and> list_all location_char s)"

definition handle_custom_location_input ::
  "env \<Rightarrow> database \<Rightarrow> fsm \<Rightarrow> int \<Rightarrow> pystr \<Rightarrow> database \<times> fsm \<times> reply" where
  "handle_custom_location_input cfg db st user_id location =
     (if length location < 4 then (db, st, (LocationTooShort, Some CancelKeyboard))
      else if \<not> location_pattern location then (db, st, (LocationCyrillicOnly, Some CancelKeyboard))
      else if is_registration st = Some True then
        (case user_name st of
           None \<Rightarrow> (db, st, (UserNameMissing, None))
         | Some nm \<Rightarrow>
             if nm = [] then (db, st, (UserNameMissing, None))
             else
               (case set_soldier_status db user_id AWAY (Some location) of
                  (db', success) \<Rightarrow>
                    if success
                    then (db', finish st,
                          (RegistrationComplete nm location,
                           Some (commander_or_soldier_keyboard cfg user_id)))
                    else (db', st, (StatusSetError, Some CancelKeyboard))))
      else
        (case get_soldier_status db user_id of
           None \<Rightarrow> (db, st, (NotRegistered, None))
         | Some status \<Rightarrow>
             (case mark_soldier_departure db user_id location of
                (db', success) \<Rightarrow>
                  if success
                  then (db', finish st,
                        (DepartureRegistered (s_name status) location,
                         Some (commander_or_soldier_keyboard cfg user_id)))
                  else (db', st, (DepartureError, Some CancelKeyboard)))))"

text \<open>The confirmation word \<^verbatim>\<open>'\u0434\u0430'\<close> ("yes").\<close>

definition confirmation_token :: pystr where
  "confirmation_token = [1076, 1072]"

definition handle_danger_confirmation_input :: "fsm \<Rightarrow> pystr \<Rightarrow> fsm \<times> reply" where
  "handle_danger_confirmation_input st text =
     (if py_lower (py_strip text) = confirmation_token
      then (st\<lparr>text_confirmed := Some True\<rparr>,
            (DangerWarning (danger_action st), Some TextConfirmationKeyboard))
      else (finish st, (DangerCancelled text, None)))"

text \<open>
  \<^verbatim>\<open>handle_filter_input\<close>: the journal is read and shown; the call of \<^verbatim>\<open>finish\<close> is inside the
  \<^verbatim>\<open>by_action\<close> branch. With any other filter type nothing is sent.
\<close>

definition handle_filter_input :: "fsm \<Rightarrow> pystr \<Rightarrow> fsm \<times> reply" where
  "handle_filter_input st text =
     (if filter_type st = Some ''by_name''
      then (st, (FilterResults ''by_name'' text, Some JournalFiltersKeyboard))
      else if filter_type st = Some ''by_action''
      then (finish st, (FilterResults ''by_action'' text, Some JournalFiltersKeyboard))
      else (st, (NoReply, None)))"

definition handle_text_message ::
  "env \<Rightarrow> database \<Rightarrow> fsm \<Rightarrow> int \<Rightarrow> pystr option \<Rightarrow> pystr \<Rightarrow> database \<times> fsm \<times> reply" where
  "handle_text_message cfg db st user_id username text =
     (if state st = Some waiting_for_name then handle_name_input db st user_id username text
      else if state st = Some waiting_for_custom_location
      then handle_custom_location_input cfg db st user_id text
      else if state st = Some waiting_for_danger_confirmation
      then (case handle_danger_confirmation_input st text of (st', r) \<Rightarrow> (db, st', r))
      else if state st = Some waiting_for_filter_input
      then (case handle_filter_input st text of (st', r) \<Rightarrow> (db, st', r))
      else (db, st, (NoReply, None)))"

subsection \<open>Handlers of button presses (\<^verbatim>\<open>handlers.py\<close>)\<close>

definition handle_arrival_callback :: "env \<Rightarrow> database \<Rightarrow> int \<Rightarrow> database \<times> reply" where
  "handle_arrival_callback cfg db user_id =
     (case get_soldier_status db user_id of
        None \<Rightarrow> (db, (NotRegistered, None))
      | Some status \<Rightarrow>
          if s_status status = IN_UNIT then (db, (AlreadyInUnit, None))
          else
            (case mark_soldier_arrival db user_id of
               (db', success) \<Rightarrow>
                 if success
                 then (db', (ArrivalRegistered (s_name status),
                             Some (commander_or_soldier_keyboard cfg user_id)))
                 else (db', (ArrivalError, None))))"

definition danger_op_of :: "string \<Rightarrow> danger_op" where
  "danger_op_of subaction =
     (if subaction = ''clear_all_data'' then ClearAllData
      else if subaction = ''reset_settings'' then ResetSettings
      else MarkAllArrived)"

text \<open>
  \<^verbatim>\<open>handle_admin_callback\<close>, called by \<^verbatim>\<open>handle_callback_query\<close> for data that starts with
  \<^verbatim>\<open>admin:\<close>. Three cases are answered before the admin panel is asked: the two journal filters
  that need typed input, the three danger-zone operations, and \<^verbatim>\<open>confirm_text\<close>. Everything
  else goes, with the whole data string, to \<^verbatim>\<open>AdminPanel.handle_callback\<close>.

  In the \<^verbatim>\<open>confirm_text\<close> case the name \<^verbatim>\<open>get_admin_keyboard\<close> is bound by an import statement
  inside the confirming branch, which makes it a local name of the whole function. The other
  branch reads it unbound while building the arguments of \<^verbatim>\<open>edit_text\<close>: that raises
  \<^verbatim>\<open>UnboundLocalError\<close> before the message is edited and before \<^verbatim>\<open>finish\<close> is called, and the
  handler's \<^verbatim>\<open>except\<close> branch answers with the error text. A missing \<^verbatim>\<open>danger_action\<close> in the
  confirming branch raises in the substring test and ends in the same \<^verbatim>\<open>except\<close> branch.
\<close>

definition handle_admin_callback ::
  "env \<Rightarrow> database \<Rightarrow> fsm \<Rightarrow> int \<Rightarrow> string \<Rightarrow> (database \<times> fsm \<times> reply) scope" where
  "handle_admin_callback cfg db st user_id data =
     (let parts = split_on CHR '':'' data;
          action = (if length parts > 1 then parts ! 1 else '''');
          subaction = (if length parts \<ge> 3 then parts ! 2 else '''')
      in if action = ''journal_filter'' \<and> subaction \<in> set [''by_name'', ''by_action'']
         then Modelled (db, st\<lparr>state := Some waiting_for_filter_input,
                                 filter_type := Some subaction\<rparr>,
                        (FilterPrompt subaction, None))
         else if action = ''danger_zone''
                 \<and> subaction \<in> set [''clear_all_data'', ''reset_settings'', ''mark_all_arrived'']
         then Modelled (db, st\<lparr>state := Some waiting_for_danger_confirmation,
                                 danger_action := Some (danger_op_of subaction)\<rparr>,
                        (DangerPrompt (danger_op_of subaction),
                         Some (DangerConfirmationKeyboard subaction)))
         else if action = ''confirm_text'' then
           (if subaction = ''yes'' \<and> text_confirmed st = Some True then
              (case danger_action st of
                 None \<Rightarrow> Modelled (db, st, (ErrorOccurred, None))
               | Some ClearAllData \<Rightarrow>
                   (case clear_all_data db of
                      (db', success) \<Rightarrow>
                        Modelled (db', finish st, (AllDataClearedMsg success, Some AdminKeyboard)))
               | Some ResetSettings \<Rightarrow>
                   (case reset_settings db of
                      (db', success) \<Rightarrow>
                        Modelled (db', finish st, (SettingsResetMsg success, Some AdminKeyboard)))
               | Some MarkAllArrived \<Rightarrow>
                   (case mark_all_arrived cfg db main_location of
                      (db', count) \<Rightarrow>
                        Modelled (db', finish st, (AllMarkedArrivedMsg count, Some AdminKeyboard))))
            else Modelled (db, st, (ErrorOccurred, None)))
         else
           (case handle_callback cfg db data user_id of
              Modelled (db', m, k) \<Rightarrow> Modelled (db', st, (m, Some k))
            | Unmodelled \<Rightarrow> Unmodelled))"

subsection \<open>The invariant of the data model\<close>

text \<open>The data model's invariant on a user row: a location is stored exactly when the user is away.\<close>

definition location_invariant :: "user \<Rightarrow> bool" where
  "location_invariant u = ((u_location u \<noteq> None) = (u_status u = AWAY))"

subsection \<open>Example data\<close>

text \<open>
  A name in the format of the registration prompt (surname, space, two initials with full
  stops), two locations ("Shtab", "Sklad" in Cyrillic), and typed inputs.
\<close>

definition ivanov :: pystr where
  "ivanov = [1048, 1074, 1072, 1085, 1086, 1074, 32, 1048, 46, 1048, 46]"

definition shtab :: pystr where
  "shtab = [1064, 1090, 1072, 1073]"

definition sklad :: pystr where
  "sklad = [1057, 1082, 1083, 1072, 1076]"



definition empty_db :: database where
  "empty_db = \<lparr>users = [], attendance = [], events = [], notification_settings = [],
                commander_permissions = []\<rparr>"

text \<open>User 42, away at the first location.\<close>

definition away_user :: user where
  "away_user = \<lparr>u_id = 1, u_telegram_id = 42, u_name = ivanov, u_location = Some shtab,
                 u_status = AWAY, u_is_admin = False, u_username = None\<rparr>"

definition away_db :: database where
  "away_db = empty_db\<lparr>users := [away_user],
                        notification_settings := [default_notification_setting 1]\<rparr>"

text \<open>User 1 is the only configured admin; user 42 is not one.\<close>

definition one_admin :: env where
  "one_admin = \<lparr>ADMIN_IDS = [1], today = 0\<rparr>"

text \<open>Twenty rows with the \<^verbatim>\<open>is_admin\<close> column false.\<close>

definition soldier :: "nat \<Rightarrow> user" where
  "soldier i = \<lparr>u_id = int i, u_telegram_id = 100 + int i, u_name = [1040 + i],
                 u_location = None, u_status = IN_UNIT, u_is_admin = False, u_username = None\<rparr>"

definition twenty_db :: database where
  "twenty_db = empty_db\<lparr>users := map soldier [1..<21]\<rparr>"

text \<open>
  The conversation state after the danger-zone button for clearing all data, and after the
  confirmation word has been typed.
\<close>

definition danger_prompted :: fsm where
  "danger_prompted = idle\<lparr>state := Some waiting_for_danger_confirmation,
                            danger_action := Some ClearAllData\<rparr>"

definition danger_text_confirmed :: fsm where
  "danger_text_confirmed = danger_prompted\<lparr>text_confirmed := Some True\<rparr>"

text \<open>The event that \<^verbatim>\<open>clear_all_data\<close> logs.\<close>

definition clear_all_data_event :: event where
  "clear_all_data_event = \<lparr>e_user_id = None, e_action = ascii ''clear_all_data'',
                            e_details = Some AllDataClearedText\<rparr>"

section \<open>Properties\<close>

subsection \<open>Lookup after a change of the users table\<close>

lemma find_filter_append_new:
  "P x \<Longrightarrow> find P (filter (\<lambda>y. \<not> P y) xs @ [x]) = Some x"
  by (induction xs) auto

lemma filter_filter_append_new:
  "P x \<Longrightarrow> filter P (filter (\<lambda>y. \<not> P y) xs @ [x]) = [x]"
  by (induction xs) auto

subsection \<open>Re-adding a registered user\<close>

text \<open>
  C9. Calling \<^verbatim>\<open>add_user\<close> with a \<^verbatim>\<open>telegram_id\<close> that is already registered returns true and
  replaces the row: afterwards the only row with that \<^verbatim>\<open>telegram_id\<close> carries the supplied
  name and location and the default status \<open>IN_UNIT\<close>; the previous status and location are
  gone.
\<close>

theorem add_user_replaces_existing:
  assumes "get_user db tid = Some old"
  shows "snd (add_user db tid nm loc un) = True
    \<and> (\<exists>row. filter (\<lambda>u. u_telegram_id u = tid) (users (fst (add_user db tid nm loc un))) = [row]
          \<and> get_user (fst (add_user db tid nm loc un)) tid = Some row
          \<and> u_name row = nm \<and> u_location row = loc \<and> u_status row = IN_UNIT)"
  by (simp add: add_user_def Let_def log_event_def get_user_def
      find_filter_append_new [where P = "\<lambda>u. u_telegram_id u = tid"]
      filter_filter_append_new [where P = "\<lambda>u. u_telegram_id u = tid"])

theorem add_user_replaces_existing_witness:
  "get_user away_db 42 = Some away_user
   \<and> snd (add_user away_db 42 sklad None None) = True
   \<and> (\<exists>row. filter (\<lambda>u. u_telegram_id u = 42)
                   (users (fst (add_user away_db 42 sklad None None))) = [row]
          \<and> get_user (fst (add_user away_db 42 sklad None None)) 42 = Some row
          \<and> u_name row = sklad \<and> u_location row = None \<and> u_status row = IN_UNIT)"
proof -
  have h: "get_user away_db 42 = Some away_user"
    by (simp add: get_user_def away_db_def empty_db_def away_user_def)
  from add_user_replaces_existing [OF h, of sklad None None] h show ?thesis by simp
qed

subsection \<open>Clearing the journal or all data only logs\<close>

text \<open>
  C10. \<^verbatim>\<open>clear_events\<close> and \<^verbatim>\<open>clear_all_data\<close> change nothing but the event log, to which they
  append one event describing the clear: every user row and every earlier event row is still
  there, unchanged and in place, and all other tables are as before.
\<close>

theorem clear_operations_only_append_event:
  "fst (clear_events db period) =
     db\<lparr>events := events db @ [\<lparr>e_user_id = None, e_action = ascii ''journal_cleared'',
                                e_details = Some (JournalClearedText period)\<rparr>]\<rparr>
   \<and> users (fst (clear_events db period)) = users db
   \<and> take (length (events db)) (events (fst (clear_events db period))) = events db
   \<and> length (events (fst (clear_events db period))) = length (events db) + 1
   \<and> fst (clear_all_data db) =
     db\<lparr>events := events db @ [\<lparr>e_user_id = None, e_action = ascii ''clear_all_data'',
                                e_details = Some AllDataClearedText\<rparr>]\<rparr>
   \<and> users (fst (clear_all_data db)) = users db
   \<and> take (length (events db)) (events (fst (clear_all_data db))) = events db
   \<and> length (events (fst (clear_all_data db))) = length (events db) + 1"
  by (simp add: clear_events_def clear_all_data_def log_event_def)

subsection \<open>Status changes\<close>

lemma find_map_cond:
  assumes "\<And>x. P x \<Longrightarrow> P (g x)"
  shows "find P (map (\<lambda>x. if P x then g x else x) xs) = map_option g (find P xs)"
  using assms by (induction xs) auto

lemma get_user_set_soldier_status:
  assumes "get_user db tid = Some u"
  shows "get_user (fst (set_soldier_status db tid s l)) tid = Some (u\<lparr>u_status := s, u_location := l\<rparr>)"
  using assms
  by (simp add: set_soldier_status_def Let_def log_event_def get_user_def
      find_map_cond [where P = "\<lambda>u. u_telegram_id u = tid"])


subsection \<open>Arriving twice\<close>



subsection \<open>Rejected custom locations\<close>



subsection \<open>Location and status\<close>

lemma list_all_users_set_soldier_status:
  assumes "list_all location_invariant (users db)" and "(l \<noteq> None) = (s = AWAY)"
  shows "list_all location_invariant (users (fst (set_soldier_status db tid s l)))"
  using assms
  by (auto simp: set_soldier_status_def Let_def log_event_def list_all_iff location_invariant_def
      split: option.splits)

lemma list_all_users_add_user:
  assumes "list_all location_invariant (users db)"
  shows "list_all location_invariant (users (fst (add_user db tid nm None un)))"
  using assms
  by (auto simp: add_user_def Let_def log_event_def list_all_iff location_invariant_def
      IN_UNIT_def AWAY_def)

lemma list_all_users_custom_location:
  assumes "list_all location_invariant (users db)"
  shows "list_all location_invariant (users (fst (handle_custom_location_input cfg db st tid loc)))"
proof -
  have s: "list_all location_invariant (users (fst (set_soldier_status db tid AWAY (Some loc))))"
    using list_all_users_set_soldier_status [OF assms, of "Some loc" AWAY] by simp
  show ?thesis
    using assms s
    by (auto simp: handle_custom_location_input_def mark_soldier_departure_def
        split: option.splits prod.splits)
qed

lemma list_all_users_arrival:
  assumes "list_all location_invariant (users db)"
  shows "list_all location_invariant (users (fst (handle_arrival_callback cfg db tid)))"
proof -
  have s: "list_all location_invariant (users (fst (set_soldier_status db tid IN_UNIT None)))"
    using list_all_users_set_soldier_status [OF assms, of None IN_UNIT]
    by (simp add: IN_UNIT_def AWAY_def)
  show ?thesis
    using assms s
    by (auto simp: handle_arrival_callback_def mark_soldier_arrival_def
        split: option.splits prod.splits)
qed

text \<open>
  C2, as the code has it. If every user row has a location exactly when its status is
  \<open>AWAY\<close>, then this still holds after the registration step, after the admin panel's
  \<^verbatim>\<open>add_user\<close> called without a location, after \<^verbatim>\<open>mark_soldier_arrival\<close> and
  \<^verbatim>\<open>mark_soldier_departure\<close>, and after the arrival button and a typed custom location;
  \<^verbatim>\<open>set_soldier_status\<close> keeps it when it is given a location exactly with the status
  \<open>AWAY\<close>.
\<close>

theorem location_invariant_preserved:
  assumes "list_all location_invariant (users db)"
  shows "list_all location_invariant (users (fst (handle_name_input db st tid un nm)))
       \<and> list_all location_invariant (users (fst (admin_add_user db tid nm None)))
       \<and> list_all location_invariant (users (fst (mark_soldier_arrival db tid)))
       \<and> list_all location_invariant (users (fst (mark_soldier_departure db tid loc)))
       \<and> list_all location_invariant (users (fst (handle_arrival_callback cfg db tid)))
       \<and> list_all location_invariant (users (fst (handle_custom_location_input cfg db st tid loc)))
       \<and> ((l \<noteq> None) = (s = AWAY) \<longrightarrow>
            list_all location_invariant (users (fst (set_soldier_status db tid s l))))"
proof (intro conjI impI)
  have "fst (handle_name_input db st tid un nm) = fst (add_user db tid nm None un)"
    by (simp add: handle_name_input_def split: prod.splits)
  then show "list_all location_invariant (users (fst (handle_name_input db st tid un nm)))"
    using list_all_users_add_user [OF assms] by simp
  show "list_all location_invariant (users (fst (admin_add_user db tid nm None)))"
    using list_all_users_add_user [OF assms] by (simp add: admin_add_user_def)
  show "list_all location_invariant (users (fst (mark_soldier_arrival db tid)))"
    using list_all_users_set_soldier_status [OF assms, of None IN_UNIT]
    by (simp add: mark_soldier_arrival_def IN_UNIT_def AWAY_def)
  show "list_all location_invariant (users (fst (mark_soldier_departure db tid loc)))"
    using list_all_users_set_soldier_status [OF assms, of "Some loc" AWAY]
    by (simp add: mark_soldier_departure_def)
  show "list_all location_invariant (users (fst (handle_arrival_callback cfg db tid)))"
    by (rule list_all_users_arrival [OF assms])
  show "list_all location_invariant
          (users (fst (handle_custom_location_input cfg db st tid loc)))"
    by (rule list_all_users_custom_location [OF assms])
  assume "(l \<noteq> None) = (s = AWAY)"
  then show "list_all location_invariant (users (fst (set_soldier_status db tid s l)))"
    using list_all_users_set_soldier_status [OF assms] by simp
qed

theorem location_invariant_preserved_witness:
  "list_all location_invariant (users away_db)
   \<and> list_all location_invariant (users (fst (handle_name_input away_db idle 42 None ivanov)))
   \<and> list_all location_invariant (users (fst (admin_add_user away_db 42 ivanov None)))
   \<and> list_all location_invariant (users (fst (mark_soldier_arrival away_db 42)))
   \<and> list_all location_invariant (users (fst (mark_soldier_departure away_db 42 sklad)))
   \<and> list_all location_invariant (users (fst (handle_arrival_callback one_admin away_db 42)))
   \<and> list_all location_invariant
        (users (fst (handle_custom_location_input one_admin away_db idle 42 sklad)))
   \<and> list_all location_invariant (users (fst (set_soldier_status away_db 42 AWAY (Some sklad))))"
proof -
  have h: "list_all location_invariant (users away_db)"
    by (simp add: away_db_def empty_db_def away_user_def location_invariant_def)
  from location_invariant_preserved [OF h, where st = idle and tid = 42 and un = None
      and nm = ivanov and loc = sklad and l = "Some sklad" and s = AWAY and cfg = one_admin] h
  show ?thesis by simp
qed

text \<open>
  The claim as stated fails: \<^verbatim>\<open>add_user\<close> given a location stores it next to the default
  status \<open>IN_UNIT\<close>, and \<^verbatim>\<open>set_soldier_status\<close> stores any pair it is given.
\<close>

theorem add_user_with_location_counterexample:
  "users (fst (admin_add_user empty_db 42 ivanov (Some shtab))) =
     [\<lparr>u_id = 1, u_telegram_id = 42, u_name = ivanov, u_location = Some shtab,
       u_status = IN_UNIT, u_is_admin = False, u_username = None\<rparr>]
   \<and> \<not> list_all location_invariant (users (fst (admin_add_user empty_db 42 ivanov (Some shtab))))
   \<and> \<not> list_all location_invariant (users (fst (set_soldier_status away_db 42 IN_UNIT (Some shtab))))
   \<and> \<not> list_all location_invariant (users (fst (set_soldier_status away_db 42 AWAY None)))"
  by (simp add: admin_add_user_def add_user_def set_soldier_status_def get_user_def Let_def
      log_event_def next_rowid_def empty_db_def away_db_def away_user_def
      location_invariant_def IN_UNIT_def AWAY_def)

subsection \<open>Updating commander permissions\<close>





lemma find_None_not_in:
  "find P xs = None \<Longrightarrow> x \<in> set xs \<Longrightarrow> \<not> P x"
  by (induction xs) (auto split: if_splits)









subsection \<open>Pagination of the personnel list\<close>

lemma pages_bounds:
  fixes n p :: int
  assumes "0 < p"
  shows "((n + p - 1) div p - 1) * p < n" and "n \<le> (n + p - 1) div p * p"
proof -
  define z where "z = (n + p - 1) div p"
  define r where "r = (n + p - 1) mod p"
  have eq: "n + p - 1 = z * p + r" unfolding z_def r_def by simp
  have r: "0 \<le> r" "r < p" unfolding r_def using assms by simp_all
  have "(z - 1) * p = z * p - p" by (simp add: algebra_simps)
  with eq r show "((n + p - 1) div p - 1) * p < n" unfolding z_def [symmetric] by linarith
  from eq r show "n \<le> (n + p - 1) div p * p" unfolding z_def [symmetric] by linarith
qed

lemma pages_ceiling:
  fixes n p :: int
  assumes "0 < p"
  shows "(n + p - 1) div p = \<lceil>real_of_int n / real_of_int p\<rceil>"
proof -
  let ?z = "(n + p - 1) div p"
  note lo = pages_bounds(1) [OF assms, of n] and hi = pages_bounds(2) [OF assms, of n]
  have "real_of_int ?z - 1 < real_of_int n / real_of_int p"
  proof -
    have "real_of_int ((?z - 1) * p) < real_of_int n" using lo by linarith
    then show ?thesis using assms by (simp add: pos_less_divide_eq)
  qed
  moreover have "real_of_int n / real_of_int p \<le> real_of_int ?z"
  proof -
    have "real_of_int n \<le> real_of_int (?z * p)" using hi by linarith
    then show ?thesis using assms by (simp add: pos_divide_le_eq)
  qed
  ultimately show ?thesis by (simp add: ceiling_unique)
qed

lemma pages_positive:
  fixes n p :: int
  assumes "0 < p" and "0 < n"
  shows "1 \<le> (n + p - 1) div p"
proof -
  have "0 < (n + p - 1) div p * p"
    using pages_bounds(2) [OF assms(1), of n] assms(2) by linarith
  then have "0 < (n + p - 1) div p"
    using assms(1) by (simp add: zero_less_mult_iff)
  then show ?thesis by simp
qed


lemma length_soldiers:
  "length (filter (\<lambda>user. \<not> u_is_admin user) (get_all_users db)) =
   length (filter (\<lambda>user. \<not> u_is_admin user) (users db))"
  by (simp add: get_all_users_def filter_sort)

lemma soldiers_empty:
  "(filter (\<lambda>user. \<not> u_is_admin user) (get_all_users db) = []) =
   (filter (\<lambda>user. \<not> u_is_admin user) (users db) = [])"
  using length_soldiers [of db] by (metis length_0_conv)

lemma get_users_list_pages:
  assumes "0 < per_page"
  shows "get_users_list db page per_page =
     (py_slice (filter (\<lambda>user. \<not> u_is_admin user) (get_all_users db))
        ((page - 1) * per_page) ((page - 1) * per_page + per_page),
      page,
      max 1 \<lceil>real (length (filter (\<lambda>user. \<not> u_is_admin user) (users db))) / real_of_int per_page\<rceil>)"
proof -
  let ?n = "length (filter (\<lambda>user. \<not> u_is_admin user) (users db))"
  have c: "\<lceil>real ?n / real_of_int per_page\<rceil> = (int ?n + per_page - 1) div per_page"
    using pages_ceiling [OF assms, of "int ?n"] by simp
  show ?thesis
  proof (cases "?n = 0")
    case True
    then show ?thesis
      using assms by (simp add: get_users_list_def Let_def length_soldiers soldiers_empty)
  next
    case False
    then have "1 \<le> (int ?n + per_page - 1) div per_page"
      using pages_positive [OF assms, of "int ?n"] by simp
    then show ?thesis
      using assms False
      by (simp add: get_users_list_def Let_def length_soldiers soldiers_empty c max_def)
  qed
qed

lemma handle_callback_personnel:
  assumes "is_admin cfg uid"
  shows "handle_callback cfg db (''personnel:'' @ sub) uid =
     (if sub = ''list_users'' then Modelled (users_page db 1)
      else if startswith sub ''list_users_'' then
        (case py_int (last (split_on CHR ''_'' sub)) of
           Some page_num \<Rightarrow> Modelled (users_page db page_num)
         | None \<Rightarrow> Modelled (users_page db 1))
      else Modelled (db, PersonnelMenu, PersonnelKeyboard))"
  using assms by (simp add: handle_callback_def split_once_def)

lemma twenty_soldiers:
  "filter (\<lambda>user. \<not> u_is_admin user) (get_all_users twenty_db) = get_all_users twenty_db"
  "length (get_all_users twenty_db) = 20"
  "length (filter (\<lambda>user. \<not> u_is_admin user) (users twenty_db)) = 20"
  by (simp_all add: get_all_users_def twenty_db_def empty_db_def soldier_def)

lemma admin_one: "is_admin one_admin 1"
  by (simp add: is_admin_def one_admin_def)

text \<open>
  C3, as the code has it. With a positive page size the number of pages is the ceiling of the
  number of non-admin rows over the page size, and at least 1, also for an empty list; with
  20 such rows and page size 8 it is 3. The page number returned is the one requested and the
  rows shown are that slice. In the admin panel's dispatcher a page suffix that does not parse
  as an integer shows page 1, like the plain list command; a suffix that parses is used as it
  is, without a range check.
\<close>

theorem pagination_as_implemented:
  "(0 < per_page \<longrightarrow>
      snd (snd (get_users_list db page per_page)) =
        max 1 \<lceil>real (length (filter (\<lambda>user. \<not> u_is_admin user) (users db)))
                 / real_of_int per_page\<rceil>
    \<and> fst (snd (get_users_list db page per_page)) = page
    \<and> fst (get_users_list db page per_page) =
        py_slice (filter (\<lambda>user. \<not> u_is_admin user) (get_all_users db))
          ((page - 1) * per_page) ((page - 1) * per_page + per_page))
   \<and> (length (filter (\<lambda>user. \<not> u_is_admin user) (users db)) = 20 \<longrightarrow>
        snd (snd (get_users_list db page 8)) = 3)
   \<and> (is_admin cfg uid \<and> startswith sub ''list_users_''
        \<and> py_int (last (split_on CHR ''_'' sub)) = None \<longrightarrow>
        handle_callback cfg db (''personnel:'' @ sub) uid = Modelled (users_page db 1)
      \<and> handle_callback cfg db ''personnel:list_users'' uid = Modelled (users_page db 1))
   \<and> (is_admin cfg uid \<and> startswith sub ''list_users_''
        \<and> py_int (last (split_on CHR ''_'' sub)) = Some p \<longrightarrow>
        handle_callback cfg db (''personnel:'' @ sub) uid = Modelled (users_page db p)
      \<and> fst (snd (users_page db p)) =
          format_users_list (fst (get_users_list db p 8)) p (snd (snd (get_users_list db p 8)))
      \<and> snd (snd (users_page db p)) =
          UsersPaginationKeyboard p (snd (snd (get_users_list db p 8))))"
proof (intro conjI impI)
  assume "0 < per_page"
  note gl = get_users_list_pages [OF this, of db page]
  show "snd (snd (get_users_list db page per_page)) =
        max 1 \<lceil>real (length (filter (\<lambda>user. \<not> u_is_admin user) (users db)))
                 / real_of_int per_page\<rceil>"
    by (simp add: gl)
  show "fst (snd (get_users_list db page per_page)) = page"
    by (simp add: gl)
  show "fst (get_users_list db page per_page) =
        py_slice (filter (\<lambda>user. \<not> u_is_admin user) (get_all_users db))
          ((page - 1) * per_page) ((page - 1) * per_page + per_page)"
    by (simp add: gl)
next
  assume "length (filter (\<lambda>user. \<not> u_is_admin user) (users db)) = 20"
  then show "snd (snd (get_users_list db page 8)) = 3"
    using get_users_list_pages [of 8 db page] by simp
next
  assume a: "is_admin cfg uid \<and> startswith sub ''list_users_''
        \<and> py_int (last (split_on CHR ''_'' sub)) = None"
  then have "sub \<noteq> ''list_users''" by (auto simp: startswith_def)
  with a handle_callback_personnel [of cfg uid db sub]
  show "handle_callback cfg db (''personnel:'' @ sub) uid = Modelled (users_page db 1)"
    by simp
  from a handle_callback_personnel [of cfg uid db "''list_users''"]
  show "handle_callback cfg db ''personnel:list_users'' uid = Modelled (users_page db 1)"
    by simp
next
  assume a: "is_admin cfg uid \<and> startswith sub ''list_users_''
        \<and> py_int (last (split_on CHR ''_'' sub)) = Some p"
  then have "sub \<noteq> ''list_users''" by (auto simp: startswith_def)
  with a handle_callback_personnel [of cfg uid db sub]
  show "handle_callback cfg db (''personnel:'' @ sub) uid = Modelled (users_page db p)"
    by simp
  show "fst (snd (users_page db p)) =
          format_users_list (fst (get_users_list db p 8)) p (snd (snd (get_users_list db p 8)))"
    using get_users_list_pages [of 8 db p] by (simp add: users_page_def)
  show "snd (snd (users_page db p)) =
          UsersPaginationKeyboard p (snd (snd (get_users_list db p 8)))"
    using get_users_list_pages [of 8 db p] by (simp add: users_page_def)
qed


theorem pagination_as_implemented_witness:
  "length (filter (\<lambda>user. \<not> u_is_admin user) (users twenty_db)) = 20
   \<and> snd (snd (get_users_list twenty_db 1 8)) = 3
   \<and> is_admin one_admin 1
   \<and> py_int (last (split_on CHR ''_'' ''list_users_abc'')) = None
   \<and> handle_callback one_admin twenty_db ''personnel:list_users_abc'' 1 =
       Modelled (users_page twenty_db 1)
   \<and> py_int (last (split_on CHR ''_'' ''list_users_2'')) = Some 2
   \<and> handle_callback one_admin twenty_db ''personnel:list_users_2'' 1 =
       Modelled (users_page twenty_db 2)"
proof -
  have n: "length (filter (\<lambda>user. \<not> u_is_admin user) (users twenty_db)) = 20"
    by (rule twenty_soldiers(3))
  have s1: "startswith ''list_users_abc'' ''list_users_''" "startswith ''list_users_2'' ''list_users_''"
    by (simp_all add: startswith_def)
  have p1: "py_int (last (split_on CHR ''_'' ''list_users_abc'')) = None"
    by (simp add: py_int_def strip_ascii_def py_isspace_def unsigned_int_def digit_val_def)
  have p2: "py_int (last (split_on CHR ''_'' ''list_users_2'')) = Some 2"
    by (simp add: py_int_def strip_ascii_def py_isspace_def unsigned_int_def digit_val_def)
  from pagination_as_implemented [of 8 twenty_db 1 one_admin 1 "''list_users_abc''" 2]
    pagination_as_implemented [of 8 twenty_db 1 one_admin 1 "''list_users_2''" 2]
    n admin_one s1 p1 p2
  show ?thesis by simp
qed

text \<open>
  The claim as stated fails for pages out of range: with 20 rows, page 99 and page 0 do not
  show page 1 but the empty-list text, with the requested number in the pagination keyboard.
\<close>

theorem out_of_range_page_counterexample:
  "handle_callback one_admin twenty_db ''personnel:list_users_99'' 1 =
     Modelled (twenty_db, UsersListEmpty, UsersPaginationKeyboard 99 3)
   \<and> handle_callback one_admin twenty_db ''personnel:list_users_0'' 1 =
     Modelled (twenty_db, UsersListEmpty, UsersPaginationKeyboard 0 3)
   \<and> handle_callback one_admin twenty_db ''personnel:list_users'' 1 =
     Modelled (twenty_db, UsersListText (take 8 (get_all_users twenty_db)) 1 3,
               UsersPaginationKeyboard 1 3)"
proof -
  have p99: "py_int ''99'' = Some 99"
    by (simp add: py_int_def strip_ascii_def py_isspace_def unsigned_int_def digit_val_def)
  have p0: "py_int ''0'' = Some 0"
    by (simp add: py_int_def strip_ascii_def py_isspace_def unsigned_int_def digit_val_def)
  have g: "get_users_list twenty_db page 8 =
      (py_slice (get_all_users twenty_db) ((page - 1) * 8) ((page - 1) * 8 + 8), page, 3)" for page
    using get_users_list_pages [of 8 twenty_db page] by (simp add: twenty_soldiers)
  have u99: "users_page twenty_db 99 = (twenty_db, UsersListEmpty, UsersPaginationKeyboard 99 3)"
    by (simp add: users_page_def g py_slice_def slice_bound_def twenty_soldiers
        format_users_list_def)
  have u0: "users_page twenty_db 0 = (twenty_db, UsersListEmpty, UsersPaginationKeyboard 0 3)"
    by (simp add: users_page_def g py_slice_def slice_bound_def twenty_soldiers
        format_users_list_def)
  have ne: "take 8 (get_all_users twenty_db) \<noteq> []"
    using twenty_soldiers(2) by (auto simp: take_eq_Nil)
  have u1: "users_page twenty_db 1 =
      (twenty_db, UsersListText (take 8 (get_all_users twenty_db)) 1 3, UsersPaginationKeyboard 1 3)"
    using ne
    by (simp add: users_page_def g py_slice_def slice_bound_def twenty_soldiers
        format_users_list_def)
  from handle_callback_personnel [OF admin_one, of twenty_db "''list_users_99''"]
    handle_callback_personnel [OF admin_one, of twenty_db "''list_users_0''"]
    handle_callback_personnel [OF admin_one, of twenty_db "''list_users''"]
  show ?thesis
    by (simp add: startswith_def p99 p0 u99 u0 u1)
qed

subsection \<open>Registration: the name step\<close>


subsection \<open>Departure then status\<close>

text \<open>
  X5. For a registered user, \<^verbatim>\<open>mark_soldier_departure\<close> with a location returns true, and
  \<^verbatim>\<open>get_soldier_status\<close> then reports the status \<open>AWAY\<close> with that location.
\<close>

theorem departure_then_status:
  assumes "get_user db tid = Some u"
  shows "snd (mark_soldier_departure db tid loc) = True
       \<and> get_soldier_status (fst (mark_soldier_departure db tid loc)) tid =
           Some \<lparr>s_name = u_name u, s_status = AWAY, s_location = Some loc,
                 s_telegram_id = tid\<rparr>"
proof -
  from assms have t: "u_telegram_id u = tid"
    by (auto simp: get_user_def find_Some_iff)
  have "snd (set_soldier_status db tid AWAY (Some loc)) = True"
    using assms by (simp add: set_soldier_status_def Let_def)
  then show ?thesis
    using get_user_set_soldier_status [OF assms, of AWAY "Some loc"] t
    by (simp add: mark_soldier_departure_def get_soldier_status_def)
qed

theorem departure_then_status_witness:
  "get_user away_db 42 = Some away_user
   \<and> snd (mark_soldier_departure away_db 42 sklad) = True
   \<and> get_soldier_status (fst (mark_soldier_departure away_db 42 sklad)) 42 =
       Some \<lparr>s_name = ivanov, s_status = AWAY, s_location = Some sklad, s_telegram_id = 42\<rparr>"
proof -
  have h: "get_user away_db 42 = Some away_user"
    by (simp add: get_user_def away_db_def empty_db_def away_user_def)
  have n: "u_name away_user = ivanov" by (simp add: away_user_def)
  from departure_then_status [OF h, of sklad] h n show ?thesis by simp
qed

subsection \<open>The admin check\<close>

text \<open>
  X1. \<^verbatim>\<open>AdminPanel.handle_callback\<close> answers every command of a caller who is not in the admin
  list with the denial text and the back keyboard, and returns the store as it was.
\<close>

theorem panel_denies_non_admin:
  assumes "\<not> is_admin cfg uid"
  shows "handle_callback cfg db callback_data uid = Modelled (db, AccessDenied, BackKeyboard)"
  using assms by (simp add: handle_callback_def split: prod.splits)

theorem panel_denies_non_admin_witness:
  "\<not> is_admin one_admin 42
   \<and> handle_callback one_admin away_db ''confirm:mark_all_arrived'' 42 =
       Modelled (away_db, AccessDenied, BackKeyboard)"
proof -
  have h: "\<not> is_admin one_admin 42" by (simp add: is_admin_def one_admin_def)
  from panel_denies_non_admin [OF h, of away_db "''confirm:mark_all_arrived''"] h
  show ?thesis by simp
qed



subsection \<open>The double confirmation of dangerous operations\<close>

text \<open>
  X2. At the first step, typed text that is not the confirmation word (after \<^verbatim>\<open>strip\<close> and
  \<^verbatim>\<open>lower\<close>) ends the conversation: the state is idle again, its data is gone and the store is
  untouched.
\<close>

theorem other_text_cancels_confirmation:
  assumes "state st = Some waiting_for_danger_confirmation"
    and "py_lower (py_strip text) \<noteq> confirmation_token"
  shows "handle_text_message cfg db st uid un text = (db, idle, (DangerCancelled text, None))"
  using assms
  by (simp add: handle_text_message_def handle_danger_confirmation_input_def finish_def)

theorem other_text_cancels_confirmation_witness:
  "state danger_prompted = Some waiting_for_danger_confirmation
   \<and> py_lower (py_strip shtab) \<noteq> confirmation_token
   \<and> handle_text_message one_admin away_db danger_prompted 1 None shtab =
       (away_db, idle, (DangerCancelled shtab, None))"
proof -
  have h1: "state danger_prompted = Some waiting_for_danger_confirmation"
    by (simp add: danger_prompted_def)
  have h2: "py_lower (py_strip shtab) \<noteq> confirmation_token"
    by (simp add: shtab_def confirmation_token_def py_strip_def py_lower_def py_isspace_def
        lower_cp_def)
  from other_text_cancels_confirmation [OF h1 h2, of one_admin away_db 1 None] h1 h2
  show ?thesis by simp
qed

lemma split_on_admin_prefix:
  "split_on CHR '':'' (''admin:'' @ rest) = ''admin'' # split_on CHR '':'' rest"
  by (simp split: list.splits)

lemma split_on_nonempty: "split_on sep s \<noteq> []"
  by (induction s) (auto split: list.splits)

lemma handle_callback_admin_prefix:
  "handle_callback cfg db (''admin:'' @ rest) uid =
     Modelled (db, if is_admin cfg uid then UnknownAction else AccessDenied, BackKeyboard)"
  by (simp add: handle_callback_def split_once_def)

text \<open>
  X3. A command of the \<^verbatim>\<open>admin:\<close> namespace returns the store unchanged unless the
  conversation data says that the confirmation word was typed and the command is
  \<^verbatim>\<open>confirm_text:yes\<close>.
\<close>

theorem store_changes_need_typed_confirmation:
  assumes "text_confirmed st \<noteq> Some True
           \<or> \<not> (length (split_on CHR '':'' (''admin:'' @ rest)) \<ge> 3
                \<and> split_on CHR '':'' (''admin:'' @ rest) ! 1 = ''confirm_text''
                \<and> split_on CHR '':'' (''admin:'' @ rest) ! 2 = ''yes'')"
  shows "\<exists>st' r. handle_admin_callback cfg db st uid (''admin:'' @ rest) = Modelled (db, st', r)"
proof -
  obtain p ps where parts: "split_on CHR '':'' rest = p # ps"
    using split_on_nonempty [of "CHR '':''" rest] by (cases "split_on CHR '':'' rest") auto
  show ?thesis
    using assms handle_callback_admin_prefix [of cfg db rest uid]
    unfolding handle_admin_callback_def Let_def split_on_admin_prefix parts
    by (cases ps) auto
qed


theorem store_changes_need_typed_confirmation_witness:
  "text_confirmed danger_prompted = None
   \<and> handle_admin_callback one_admin empty_db danger_prompted 1 ''admin:confirm_text:yes'' =
       Modelled (empty_db, danger_prompted, (ErrorOccurred, None))"
proof -
  have h: "text_confirmed danger_prompted = None"
    by (simp add: danger_prompted_def idle_def)
  then have "text_confirmed danger_prompted \<noteq> Some True
           \<or> \<not> (length (split_on CHR '':'' (''admin:'' @ ''confirm_text:yes'')) \<ge> 3
                \<and> split_on CHR '':'' (''admin:'' @ ''confirm_text:yes'') ! 1 = ''confirm_text''
                \<and> split_on CHR '':'' (''admin:'' @ ''confirm_text:yes'') ! 2 = ''yes'')"
    by simp
  from store_changes_need_typed_confirmation [OF this, of one_admin empty_db 1]
  obtain st' r where
    "handle_admin_callback one_admin empty_db danger_prompted 1 (''admin:'' @ ''confirm_text:yes'')
       = Modelled (empty_db, st', r)"
    by blast
  moreover have
    "handle_admin_callback one_admin empty_db danger_prompted 1 (''admin:'' @ ''confirm_text:yes'')
       = Modelled (empty_db, danger_prompted, (ErrorOccurred, None))"
    by (simp add: handle_admin_callback_def h)
  ultimately show ?thesis using h by simp
qed

text \<open>
  X4. After the confirmation word, the confirm button runs the operation once: one event is
  appended and the conversation is idle; pressing the button again in the idle conversation
  changes nothing.
\<close>

theorem confirmed_operation_runs_once:
  assumes "text_confirmed st = Some True" and "danger_action st = Some ClearAllData"
  shows "handle_admin_callback cfg db st uid ''admin:confirm_text:yes'' =
           Modelled (db\<lparr>events := events db @ [clear_all_data_event]\<rparr>, idle,
                     (AllDataClearedMsg True, Some AdminKeyboard))
       \<and> handle_admin_callback cfg (db\<lparr>events := events db @ [clear_all_data_event]\<rparr>) idle uid
           ''admin:confirm_text:yes'' =
           Modelled (db\<lparr>events := events db @ [clear_all_data_event]\<rparr>, idle,
                     (ErrorOccurred, None))"
  using assms
  by (simp add: handle_admin_callback_def clear_all_data_def log_event_def finish_def
      clear_all_data_event_def idle_def)

theorem confirmed_operation_runs_once_witness:
  "text_confirmed danger_text_confirmed = Some True
   \<and> danger_action danger_text_confirmed = Some ClearAllData
   \<and> handle_admin_callback one_admin empty_db danger_text_confirmed 1 ''admin:confirm_text:yes'' =
       Modelled (empty_db\<lparr>events := [clear_all_data_event]\<rparr>, idle,
                 (AllDataClearedMsg True, Some AdminKeyboard))
   \<and> handle_admin_callback one_admin (empty_db\<lparr>events := [clear_all_data_event]\<rparr>) idle 1
       ''admin:confirm_text:yes'' =
       Modelled (empty_db\<lparr>events := [clear_all_data_event]\<rparr>, idle, (ErrorOccurred, None))"
proof -
  have h1: "text_confirmed danger_text_confirmed = Some True"
    by (simp add: danger_text_confirmed_def)
  have h2: "danger_action danger_text_confirmed = Some ClearAllData"
    by (simp add: danger_text_confirmed_def danger_prompted_def)
  have e: "events empty_db = []" by (simp add: empty_db_def)
  from confirmed_operation_runs_once [OF h1 h2, of one_admin empty_db 1] h1 h2 e
  show ?thesis by simp
qed


end
